theory Spec2Isabelle
  imports Complex_Main
begin

section \<open>Numbers\<close>

text \<open>
  The program computes on pandas columns of dtype float64 and on the Python numbers
  the caller passes in (\<open>initial_capital\<close>, \<open>fee_percent\<close>, the two windows).
  Rounding and overflow are not modelled: a finite float is a \<open>real\<close>. What is
  modelled is the part of IEEE arithmetic the program can reach without rounding: numpy
  division by zero does not raise, it yields an infinity or a NaN, and those propagate.

  Close prices are finite numbers (the loader hands over clean numeric rows), so a close
  column is a \<open>real list\<close>; a value computed from it is an \<open>fl\<close>.
\<close>

datatype fl = Fin real | PInf | NInf | NaN

definition signed_inf :: "real \<Rightarrow> fl" where
  "signed_inf s = (if 0 < s then PInf else if s < 0 then NInf else NaN)"

fun fsign :: "fl \<Rightarrow> real" where
  "fsign (Fin a) = sgn a"
| "fsign PInf = 1"
| "fsign NInf = - 1"
| "fsign NaN = 0"

fun fneg :: "fl \<Rightarrow> fl" where
  "fneg (Fin a) = Fin (- a)"
| "fneg PInf = NInf"
| "fneg NInf = PInf"
| "fneg NaN = NaN"

fun fadd :: "fl \<Rightarrow> fl \<Rightarrow> fl" where
  "fadd NaN y = NaN"
| "fadd x NaN = NaN"
| "fadd (Fin a) (Fin b) = Fin (a + b)"
| "fadd PInf NInf = NaN"
| "fadd NInf PInf = NaN"
| "fadd PInf y = PInf"
| "fadd x PInf = PInf"
| "fadd NInf y = NInf"
| "fadd x NInf = NInf"

definition fsub :: "fl \<Rightarrow> fl \<Rightarrow> fl" where
  "fsub x y = fadd x (fneg y)"

fun fmul :: "fl \<Rightarrow> fl \<Rightarrow> fl" where
  "fmul NaN y = NaN"
| "fmul x NaN = NaN"
| "fmul (Fin a) (Fin b) = Fin (a * b)"
| "fmul x y = signed_inf (fsign x * fsign y)"

text \<open>
  numpy's true division: a finite value over zero is an infinity of its sign, zero over
  zero is NaN, and no exception is raised (only a RuntimeWarning is printed). Signed
  zeros are not modelled: a zero divisor counts as \<open>+0\<close>.
\<close>

fun fdiv :: "fl \<Rightarrow> fl \<Rightarrow> fl" where
  "fdiv NaN y = NaN"
| "fdiv x NaN = NaN"
| "fdiv (Fin a) (Fin b) = (if b = 0 then signed_inf a else Fin (a / b))"
| "fdiv (Fin a) y = Fin 0"
| "fdiv x (Fin b) = signed_inf (fsign x * (if b < 0 then - 1 else 1))"
| "fdiv x y = NaN"


text \<open>Comparisons of a float with the integer literal 0: false on NaN.\<close>

fun fl_eq0 :: "fl \<Rightarrow> bool" where
  "fl_eq0 (Fin a) = (a = 0)"
| "fl_eq0 x = False"

fun fl_gt0 :: "fl \<Rightarrow> bool" where
  "fl_gt0 (Fin a) = (0 < a)"
| "fl_gt0 PInf = True"
| "fl_gt0 x = False"

text \<open>
  A variable of the simulators holds either a Python number (the caller's
  \<open>initial_capital\<close>, or a literal 0) or a numpy scalar (anything computed from a
  column entry). The difference shows in one place: Python's own division raises
  ZeroDivisionError, numpy's does not.
\<close>

datatype pynum = Py real | Np fl

fun num_fl :: "pynum \<Rightarrow> fl" where
  "num_fl (Py r) = Fin r"
| "num_fl (Np x) = x"

fun num_mul :: "pynum \<Rightarrow> pynum \<Rightarrow> pynum" where
  "num_mul (Py a) (Py b) = Py (a * b)"
| "num_mul x y = Np (fmul (num_fl x) (num_fl y))"

fun num_sub :: "pynum \<Rightarrow> pynum \<Rightarrow> pynum" where
  "num_sub (Py a) (Py b) = Py (a - b)"
| "num_sub x y = Np (fsub (num_fl x) (num_fl y))"

fun num_add :: "pynum \<Rightarrow> pynum \<Rightarrow> pynum" where
  "num_add (Py a) (Py b) = Py (a + b)"
| "num_add x y = Np (fadd (num_fl x) (num_fl y))"

datatype error = ValueError | ZeroDivisionError | IndexError

fun num_div :: "pynum \<Rightarrow> pynum \<Rightarrow> error + pynum" where
  "num_div (Py a) (Py b) = (if b = 0 then Inl ZeroDivisionError else Inr (Py (a / b)))"
| "num_div x y = Inr (Np (fdiv (num_fl x) (num_fl y)))"

section \<open>Signal engine: \<open>calculate_ema_strategy\<close>\<close>

text \<open>
  \<open>df["close"].ewm(span=w, adjust=False).mean()\<close> is a call into pandas. Its
  documented behaviour: \<open>span\<close> must be at least 1, otherwise the call raises
  ValueError; the smoothing factor is \<open>alpha = 2 / (span + 1)\<close>; with
  \<open>adjust=False\<close> the output is computed in one pass that carries the previous
  output, starting from the first observation. An empty column gives an empty column.
\<close>

definition span_alpha :: "int \<Rightarrow> real" where
  "span_alpha w = 2 / (real_of_int w + 1)"

fun ewm_loop :: "real \<Rightarrow> real \<Rightarrow> real list \<Rightarrow> real list" where
  "ewm_loop alpha weighted [] = []"
| "ewm_loop alpha weighted (cur # rest) =
     (let weighted' = (1 - alpha) * weighted + alpha * cur
      in weighted' # ewm_loop alpha weighted' rest)"

definition ewm_mean :: "int \<Rightarrow> real list \<Rightarrow> error + real list" where
  "ewm_mean w vals =
     (if w < 1 then Inl ValueError
      else case vals of
             [] \<Rightarrow> Inr []
           | v # rest \<Rightarrow> Inr (v # ewm_loop (span_alpha w) v rest))"

text \<open>
  \<open>df.loc[mask, "signal"] = v\<close>: the entries of the column where the mask holds
  are overwritten with \<open>v\<close>.
\<close>

definition set_where :: "bool list \<Rightarrow> 'a \<Rightarrow> 'a list \<Rightarrow> 'a list" where
  "set_where msk v col = map (\<lambda>(m, x). if m then v else x) (zip msk col)"

text \<open>
  A data frame is the list of its rows, in index order. A row carries the columns the
  core reads or writes: \<open>close\<close> from the loader, and the three columns
  \<open>calculate_ema_strategy\<close> adds.
\<close>

record bar =
  close :: real
  ema_short :: real
  ema_long :: real
  signal :: int

text \<open>
  \<open>calculate_ema_strategy\<close> has the same body in \<open>backtest.py\<close> and in
  \<open>app.py\<close>. It takes the frame by its close column and returns it with the three
  new columns attached.
\<close>

definition calculate_ema_strategy :: "real list \<Rightarrow> int \<Rightarrow> int \<Rightarrow> error + bar list" where
  "calculate_ema_strategy closes short_window long_window =
     (case ewm_mean short_window closes of
        Inl e \<Rightarrow> Inl e
      | Inr es \<Rightarrow>
          (case ewm_mean long_window closes of
             Inl e \<Rightarrow> Inl e
           | Inr el \<Rightarrow>
               (let sig0 = replicate (length closes) (0 :: int);
                    sig1 = set_where (map2 (\<lambda>s l. s > l) es el) 1 sig0;
                    sig2 = set_where (map2 (\<lambda>s l. s < l) es el) (- 1) sig1
                in Inr (map (\<lambda>(c, s, l, g). \<lparr>close = c, ema_short = s, ema_long = l, signal = g\<rparr>)
                         (zip closes (zip es (zip el sig2)))))))"

section \<open>Backtest simulator of \<open>backtest.py\<close>: \<open>backtest_ema\<close>\<close>

text \<open>
  A column entry read with \<open>.iloc[i]\<close> is a numpy scalar, so a division by
  \<open>close_price\<close> is numpy's and never raises.
\<close>

definition np_div :: "pynum \<Rightarrow> real \<Rightarrow> pynum" where
  "np_div x c = Np (fdiv (num_fl x) (Fin c))"

definition np_mul :: "pynum \<Rightarrow> real \<Rightarrow> pynum" where
  "np_mul x c = Np (fmul (num_fl x) (Fin c))"

text \<open>The local variables of the first loop.\<close>

record sim =
  position :: int
  entry_price :: real
  capital :: pynum
  shares :: pynum

text \<open>The body of the first loop, without the write to the position column.\<close>

definition step :: "real \<Rightarrow> bar \<Rightarrow> sim \<Rightarrow> sim" where
  "step fee_percent b s =
     (let current_signal = signal b; close_price = close b in
      if position s = 0 \<and> current_signal = 1 then
        (let fee = num_mul (capital s) (Py fee_percent);
             capital_after_fee = num_sub (capital s) fee
         in s\<lparr>position := 1, entry_price := close_price,
               shares := np_div capital_after_fee close_price\<rparr>)
      else if position s = 1 \<and> current_signal = - 1 then
        (let sell_value = np_mul (shares s) close_price;
             fee = num_mul sell_value (Py fee_percent)
         in s\<lparr>position := 0, capital := num_sub sell_value fee, shares := Py 0\<rparr>)
      else s)"

text \<open>
  \<open>for i in range(1, len(df))\<close>: the loop walks the rows from index 1 on (the
  caller passes the frame without its first row), returns the entries it wrote to the
  position column and its variables at the end. The write
  \<open>df["position"].iloc[i] = position\<close> is taken to reach the frame, as it does
  in pandas without copy-on-write.
\<close>

fun first_loop :: "real \<Rightarrow> bar list \<Rightarrow> sim \<Rightarrow> int list \<times> sim" where
  "first_loop fee_percent [] s = ([], s)"
| "first_loop fee_percent (b # bs) s =
     (let s' = step fee_percent b s;
          (ps, sf) = first_loop fee_percent bs s'
      in (position s' # ps, sf))"

text \<open>
  The sale on the last row when the first loop ends in position.
  \<open>df["close"].iloc[-1]\<close> raises IndexError on an empty frame.
\<close>

definition liquidate :: "real \<Rightarrow> bar list \<Rightarrow> sim \<Rightarrow> error + sim" where
  "liquidate fee_percent df s =
     (if position s = 1 then
        (case df of
           [] \<Rightarrow> Inl IndexError
         | _ # _ \<Rightarrow>
             (let last_close = close (last df);
                  sell_value = np_mul (shares s) last_close;
                  fee = num_mul sell_value (Py fee_percent)
              in Inr (s\<lparr>capital := num_sub sell_value fee, position := 0, shares := Py 0\<rparr>)))
      else Inr s)"

text \<open>The local variables of the second loop.\<close>

record sim2 =
  pos :: int
  entry_p :: real
  cap_temp :: pynum
  sh :: pynum

definition step2 :: "real \<Rightarrow> bar \<Rightarrow> sim2 \<Rightarrow> sim2" where
  "step2 fee_percent b t =
     (let sig = signal b; c_price = close b in
      if pos t = 0 \<and> sig = 1 then
        (let fee = num_mul (cap_temp t) (Py fee_percent);
             cap_temp' = num_sub (cap_temp t) fee
         in t\<lparr>pos := 1, entry_p := c_price, cap_temp := cap_temp',
               sh := np_div cap_temp' c_price\<rparr>)
      else if pos t = 1 \<and> sig = - 1 then
        (let sell_value = np_mul (sh t) c_price;
             fee = num_mul sell_value (Py fee_percent)
         in t\<lparr>pos := 0, cap_temp := num_sub sell_value fee, sh := Py 0\<rparr>)
      else t)"

text \<open>The value appended for a row, from the variables after the row's step.\<close>

definition value_of :: "sim2 \<Rightarrow> bar \<Rightarrow> pynum" where
  "value_of t b = (if pos t = 1 then np_mul (sh t) (close b) else cap_temp t)"

fun second_loop :: "real \<Rightarrow> bar list \<Rightarrow> sim2 \<Rightarrow> pynum list" where
  "second_loop fee_percent [] t = []"
| "second_loop fee_percent (b # bs) t =
     (let t' = step2 fee_percent b t
      in value_of t' b # second_loop fee_percent bs t')"

text \<open>
  \<open>roi = (capital - initial_capital) / initial_capital * 100.0\<close>. When no sale
  has happened \<open>capital\<close> is still the caller's Python number and the division is
  Python's.
\<close>

definition roi_of :: "pynum \<Rightarrow> real \<Rightarrow> error + pynum" where
  "roi_of cap initial_capital =
     (case num_div (num_sub cap (Py initial_capital)) (Py initial_capital) of
        Inl e \<Rightarrow> Inl e
      | Inr q \<Rightarrow> Inr (num_mul q (Py 100)))"

record result =
  position_col :: "int list"
  portfolio_value :: "pynum list"
  roi :: pynum

definition init_sim :: "real \<Rightarrow> sim" where
  "init_sim initial_capital =
     \<lparr>position = 0, entry_price = 0, capital = Py initial_capital, shares = Py 0\<rparr>"

definition init_sim2 :: "real \<Rightarrow> sim2" where
  "init_sim2 initial_capital =
     \<lparr>pos = 0, entry_p = 0, cap_temp = Py initial_capital, sh = Py 0\<rparr>"

text \<open>
  The position column starts as all zeros and row 0 is never written; in the second
  loop row 0 appends \<open>cap_temp\<close> and continues.
\<close>

definition backtest_ema :: "bar list \<Rightarrow> real \<Rightarrow> real \<Rightarrow> error + result" where
  "backtest_ema df initial_capital fee_percent =
     (let (ps, s1) = first_loop fee_percent (tl df) (init_sim initial_capital);
          pcol = (case df of [] \<Rightarrow> [] | _ # _ \<Rightarrow> 0 # ps)
      in case liquidate fee_percent df s1 of
           Inl e \<Rightarrow> Inl e
         | Inr s2 \<Rightarrow>
             (let portfolio_values =
                    (case df of
                       [] \<Rightarrow> []
                     | _ # rest \<Rightarrow>
                         cap_temp (init_sim2 initial_capital)
                           # second_loop fee_percent rest (init_sim2 initial_capital))
              in case roi_of (capital s2) initial_capital of
                   Inl e \<Rightarrow> Inl e
                 | Inr r \<Rightarrow>
                     Inr \<lparr>position_col = pcol, portfolio_value = portfolio_values, roi = r\<rparr>))"

section \<open>Backtest simulator of \<open>app.py\<close>: \<open>backtest_ema\<close>\<close>

text \<open>
  The dashboard has its own, shorter simulator: no fee, no sale forced at the end, a walk
  over every row (row 0 included), and \<open>position\<close> holds the number of shares.
\<close>

record app_sim =
  app_position :: pynum
  balance :: pynum

definition app_step :: "bar \<Rightarrow> app_sim \<Rightarrow> app_sim" where
  "app_step row s =
     (if signal row = 1 \<and> fl_eq0 (num_fl (app_position s)) then
        \<lparr>app_position = np_div (balance s) (close row), balance = Py 0\<rparr>
      else if signal row = - 1 \<and> fl_gt0 (num_fl (app_position s)) then
        \<lparr>app_position = Py 0, balance = np_mul (app_position s) (close row)\<rparr>
      else s)"

definition app_value :: "app_sim \<Rightarrow> bar \<Rightarrow> pynum" where
  "app_value s row =
     num_add (balance s)
       (if fl_gt0 (num_fl (app_position s)) then np_mul (app_position s) (close row) else Py 0)"

fun app_loop :: "bar list \<Rightarrow> app_sim \<Rightarrow> pynum list" where
  "app_loop [] s = []"
| "app_loop (row # rows) s =
     (let s' = app_step row s in app_value s' row # app_loop rows s')"

definition app_init :: "real \<Rightarrow> app_sim" where
  "app_init initial_capital = \<lparr>app_position = Py 0, balance = Py initial_capital\<rparr>"

text \<open>\<open>portfolio[-1]\<close> raises IndexError when the frame is empty.\<close>

definition app_backtest_ema :: "bar list \<Rightarrow> real \<Rightarrow> error + pynum list \<times> pynum" where
  "app_backtest_ema df initial_capital =
     (let portfolio = app_loop df (app_init initial_capital)
      in case portfolio of
           [] \<Rightarrow> Inl IndexError
         | _ # _ \<Rightarrow>
             (case roi_of (last portfolio) initial_capital of
                Inl e \<Rightarrow> Inl e
              | Inr r \<Rightarrow> Inr (portfolio, r)))"

section \<open>The variables of the loops at each index\<close>

text \<open>
  The loops keep only their last variables. To speak of the state at an index, the
  variables after each iteration are collected: entry \<open>i\<close> of the list is the state
  once row \<open>i\<close> has been handled.
\<close>

fun states :: "real \<Rightarrow> bar list \<Rightarrow> sim \<Rightarrow> sim list" where
  "states fee_percent [] s = []"
| "states fee_percent (b # bs) s =
     (let s' = step fee_percent b s in s' # states fee_percent bs s')"

definition first_states :: "bar list \<Rightarrow> real \<Rightarrow> real \<Rightarrow> sim list" where
  "first_states df initial_capital fee_percent =
     (case df of
        [] \<Rightarrow> []
      | _ # rest \<Rightarrow> init_sim initial_capital # states fee_percent rest (init_sim initial_capital))"

fun states2 :: "real \<Rightarrow> bar list \<Rightarrow> sim2 \<Rightarrow> sim2 list" where
  "states2 fee_percent [] t = []"
| "states2 fee_percent (b # bs) t =
     (let t' = step2 fee_percent b t in t' # states2 fee_percent bs t')"

definition second_states :: "bar list \<Rightarrow> real \<Rightarrow> real \<Rightarrow> sim2 list" where
  "second_states df initial_capital fee_percent =
     (case df of
        [] \<Rightarrow> []
      | _ # rest \<Rightarrow> init_sim2 initial_capital # states2 fee_percent rest (init_sim2 initial_capital))"

fun app_states :: "bar list \<Rightarrow> app_sim \<Rightarrow> app_sim list" where
  "app_states [] s = []"
| "app_states (row # rows) s = (let s' = app_step row s in s' # app_states rows s')"

text \<open>A row given by its close price and its signal (the simulators read nothing else).\<close>

definition row_of :: "real \<Rightarrow> int \<Rightarrow> bar" where
  "row_of c g = \<lparr>close = c, ema_short = c, ema_long = c, signal = g\<rparr>"

text \<open>What the two loops of \<open>backtest_ema\<close> have in common at every index.\<close>

definition same_ledger :: "sim \<Rightarrow> sim2 \<Rightarrow> bool" where
  "same_ledger s t \<longleftrightarrow>
     position s = pos t \<and> shares s = sh t \<and> (position s = 0 \<longrightarrow> capital s = cap_temp t)"

text \<open>
  Two runs over the same frame, the second with the higher fee rate: they are in the
  same position, all amounts are finite and not negative, and the second run holds no
  more cash and no more shares than the first.
\<close>

fun fl_le :: "fl \<Rightarrow> fl \<Rightarrow> bool" where
  "fl_le (Fin a) (Fin b) = (a \<le> b)"
| "fl_le x y = False"

definition no_richer :: "sim \<Rightarrow> sim \<Rightarrow> bool" where
  "no_richer s1 s2 \<longleftrightarrow>
     position s1 = position s2 \<and> (position s1 = 0 \<or> position s1 = 1) \<and>
     fl_le (Fin 0) (num_fl (capital s2)) \<and> fl_le (num_fl (capital s2)) (num_fl (capital s1)) \<and>
     fl_le (Fin 0) (num_fl (shares s2)) \<and> fl_le (num_fl (shares s2)) (num_fl (shares s1))"

section \<open>The signal engine satisfies the recursive EMA definition\<close>

lemma length_ewm_loop: "length (ewm_loop a w xs) = length xs"
  by (induction xs arbitrary: w) (simp_all add: Let_def)

lemma nth_ewm_loop:
  "i < length xs \<Longrightarrow>
   ewm_loop a w xs ! i = a * xs ! i + (1 - a) * (if i = 0 then w else ewm_loop a w xs ! (i - 1))"
proof (induction xs arbitrary: w i)
  case Nil
  then show ?case by simp
next
  case (Cons x xs)
  show ?case
  proof (cases i)
    case 0
    then show ?thesis by (simp add: Let_def)
  next
    case (Suc j)
    with Cons.prems have j: "j < length xs" by simp
    show ?thesis
      using Cons.IH [OF j, of "(1 - a) * w + a * x"] Suc
      by (cases j) (simp_all add: Let_def)
  qed
qed

lemma ewm_mean_Inr:
  "1 \<le> w \<Longrightarrow> \<exists>ys. ewm_mean w xs = Inr ys \<and> length ys = length xs"
  by (cases xs) (simp_all add: ewm_mean_def length_ewm_loop)

lemma ewm_mean_length: "ewm_mean w xs = Inr ys \<Longrightarrow> length ys = length xs"
  by (cases xs) (auto simp: ewm_mean_def length_ewm_loop split: if_splits)

lemma ewm_mean_0: "ewm_mean w xs = Inr ys \<Longrightarrow> xs \<noteq> [] \<Longrightarrow> ys ! 0 = xs ! 0"
  by (cases xs) (auto simp: ewm_mean_def split: if_splits)

lemma ewm_mean_step:
  assumes "ewm_mean w xs = Inr ys" and "1 \<le> i" and "i < length xs"
  shows "ys ! i = span_alpha w * xs ! i + (1 - span_alpha w) * ys ! (i - 1)"
proof -
  from assms obtain v rest where xs: "xs = v # rest" by (cases xs) auto
  with assms(1) have ys: "ys = v # ewm_loop (span_alpha w) v rest"
    by (auto simp: ewm_mean_def split: if_splits)
  from assms(2) obtain j where i: "i = Suc j" by (cases i) auto
  with assms(3) xs have j: "j < length rest" by simp
  show ?thesis
    using nth_ewm_loop [OF j, of "span_alpha w" v] 
    by (cases j) (simp_all add: ys xs i)
qed

lemma length_set_where: "length (set_where m v col) = min (length m) (length col)"
  by (simp add: set_where_def)

lemma nth_set_where:
  "i < length m \<Longrightarrow> i < length col \<Longrightarrow> set_where m v col ! i = (if m ! i then v else col ! i)"
  by (simp add: set_where_def)

lemma calculate_rows:
  assumes "calculate_ema_strategy closes sw lw = Inr rows"
  shows "\<exists>es el. ewm_mean sw closes = Inr es \<and> ewm_mean lw closes = Inr el \<and>
           length rows = length closes \<and>
           (\<forall>i < length closes. rows ! i =
              \<lparr>close = closes ! i, ema_short = es ! i, ema_long = el ! i,
               signal = (if es ! i < el ! i then - 1 else if es ! i > el ! i then 1 else 0)\<rparr>)"
proof -
  from assms obtain es el where es: "ewm_mean sw closes = Inr es" and el: "ewm_mean lw closes = Inr el"
    by (auto simp: calculate_ema_strategy_def split: sum.splits)
  have les: "length es = length closes" and lel: "length el = length closes"
    using es el by (simp_all add: ewm_mean_length)
  from assms es el have rows: "rows = map (\<lambda>(c, s, l, g). \<lparr>close = c, ema_short = s, ema_long = l, signal = g\<rparr>)
       (zip closes (zip es (zip el (set_where (map2 (\<lambda>s l. s < l) es el) (- 1)
          (set_where (map2 (\<lambda>s l. s > l) es el) 1 (replicate (length closes) (0 :: int)))))))"
    by (simp add: calculate_ema_strategy_def Let_def)
  show ?thesis
    using es el by (auto simp: rows les lel length_set_where nth_set_where)
qed

text \<open>
  C1. For a non-empty close column and windows of at least 1, the engine returns a frame
  of the same length whose two EMA columns start at \<open>close[0]\<close> and satisfy, at
  every later index, \<open>ema[i] = alpha * close[i] + (1 - alpha) * ema[i - 1]\<close> with
  \<open>alpha = 2 / (w + 1)\<close> for the column's own window \<open>w\<close>.
\<close>

theorem ema_recursive_definition:
  assumes "closes \<noteq> []" and "1 \<le> short_window" and "1 \<le> long_window"
  shows "\<exists>rows. calculate_ema_strategy closes short_window long_window = Inr rows \<and>
           length rows = length closes \<and>
           ema_short (rows ! 0) = closes ! 0 \<and> ema_long (rows ! 0) = closes ! 0 \<and>
           (\<forall>i. 1 \<le> i \<and> i < length closes \<longrightarrow>
              ema_short (rows ! i) =
                2 / (real_of_int short_window + 1) * closes ! i
                  + (1 - 2 / (real_of_int short_window + 1)) * ema_short (rows ! (i - 1)) \<and>
              ema_long (rows ! i) =
                2 / (real_of_int long_window + 1) * closes ! i
                  + (1 - 2 / (real_of_int long_window + 1)) * ema_long (rows ! (i - 1)))"
proof -
  from assms(2) obtain es where es: "ewm_mean short_window closes = Inr es"
    using ewm_mean_Inr by blast
  from assms(3) obtain el where el: "ewm_mean long_window closes = Inr el"
    using ewm_mean_Inr by blast
  from es el obtain rows where rows: "calculate_ema_strategy closes short_window long_window = Inr rows"
    by (simp add: calculate_ema_strategy_def Let_def)
  from calculate_rows [OF rows] es el
  have len: "length rows = length closes"
    and nth: "\<And>i. i < length closes \<Longrightarrow>
                ema_short (rows ! i) = es ! i \<and> ema_long (rows ! i) = el ! i"
    by auto
  from assms(1) have pos: "0 < length closes" by simp
  have zero: "ema_short (rows ! 0) = closes ! 0 \<and> ema_long (rows ! 0) = closes ! 0"
    using nth [OF pos] ewm_mean_0 [OF es assms(1)] ewm_mean_0 [OF el assms(1)] by simp
  have rec: "ema_short (rows ! i) =
               2 / (real_of_int short_window + 1) * closes ! i
                 + (1 - 2 / (real_of_int short_window + 1)) * ema_short (rows ! (i - 1)) \<and>
             ema_long (rows ! i) =
               2 / (real_of_int long_window + 1) * closes ! i
                 + (1 - 2 / (real_of_int long_window + 1)) * ema_long (rows ! (i - 1))"
    if i: "1 \<le> i \<and> i < length closes" for i
  proof -
    from i have i1: "1 \<le> i" and i2: "i < length closes" and i3: "i - 1 < length closes"
      by auto
    show ?thesis
      using nth [OF i2] nth [OF i3] ewm_mean_step [OF es i1 i2] ewm_mean_step [OF el i1 i2]
      by (simp add: span_alpha_def)
  qed
  from rows len zero rec show ?thesis by blast
qed

theorem ema_recursive_definition_witness:
  "\<exists>rows. calculate_ema_strategy [10, 20, 10] 1 2 = Inr rows \<and>
     length rows = 3 \<and> ema_short (rows ! 0) = 10 \<and> ema_long (rows ! 0) = 10 \<and>
     ema_short (rows ! 1) = 20 \<and> ema_long (rows ! 1) = 50 / 3 \<and>
     ema_short (rows ! 2) = 10 \<and> ema_long (rows ! 2) = 110 / 9"
proof -
  obtain rows where r: "calculate_ema_strategy [10, 20, 10] 1 2 = Inr rows"
    and l: "length rows = 3"
    and z: "ema_short (rows ! 0) = 10" "ema_long (rows ! 0) = 10"
    and s: "\<And>i. 1 \<le> i \<and> i < 3 \<Longrightarrow>
              ema_short (rows ! i) = 2 / (real_of_int 1 + 1) * [10, 20, 10] ! i
                 + (1 - 2 / (real_of_int 1 + 1)) * ema_short (rows ! (i - 1)) \<and>
              ema_long (rows ! i) = 2 / (real_of_int 2 + 1) * [10, 20, 10] ! i
                 + (1 - 2 / (real_of_int 2 + 1)) * ema_long (rows ! (i - 1))"
    using ema_recursive_definition [of "[10, 20, 10]" 1 2] by auto
  from s [of 1] z have one: "ema_short (rows ! 1) = 20" "ema_long (rows ! 1) = 50 / 3"
    by simp_all
  from s [of 2] one have two: "ema_short (rows ! 2) = 10" "ema_long (rows ! 2) = 110 / 9"
    by simp_all
  from r l z one two show ?thesis by blast
qed



section \<open>The loops, index by index\<close>

lemma length_states: "length (states f bs s) = length bs"
  by (induction bs arbitrary: s) (simp_all add: Let_def)

lemma length_states2: "length (states2 f bs t) = length bs"
  by (induction bs arbitrary: t) (simp_all add: Let_def)

lemma length_app_states: "length (app_states rows s) = length rows"
  by (induction rows arbitrary: s) (simp_all add: Let_def)

lemma nth_states:
  "i < length bs \<Longrightarrow> states f bs s ! i = step f (bs ! i) ((s # states f bs s) ! i)"
proof (induction bs arbitrary: s i)
  case Nil
  then show ?case by simp
next
  case (Cons b bs)
  then show ?case by (cases i) (simp_all add: Let_def)
qed

lemma nth_states2:
  "i < length bs \<Longrightarrow> states2 f bs t ! i = step2 f (bs ! i) ((t # states2 f bs t) ! i)"
proof (induction bs arbitrary: t i)
  case Nil
  then show ?case by simp
next
  case (Cons b bs)
  then show ?case by (cases i) (simp_all add: Let_def)
qed

lemma nth_app_states:
  "i < length rows \<Longrightarrow>
   app_states rows s ! i = app_step (rows ! i) ((s # app_states rows s) ! i)"
proof (induction rows arbitrary: s i)
  case Nil
  then show ?case by simp
next
  case (Cons r rows)
  then show ?case by (cases i) (simp_all add: Let_def)
qed

lemma first_loop_states:
  "first_loop f bs s = (map position (states f bs s), last (s # states f bs s))"
  by (induction bs arbitrary: s) (simp_all add: Let_def)

lemma second_loop_states:
  "second_loop f bs t = map2 value_of (states2 f bs t) bs"
  by (induction bs arbitrary: t) (simp_all add: Let_def)

lemma app_loop_states:
  "app_loop rows s = map2 app_value (app_states rows s) rows"
  by (induction rows arbitrary: s) (simp_all add: Let_def)

lemma length_first_states: "length (first_states df ic f) = length df"
  by (cases df) (simp_all add: first_states_def length_states)

lemma length_second_states: "length (second_states df ic f) = length df"
  by (cases df) (simp_all add: second_states_def length_states2)

lemma first_states_0: "df \<noteq> [] \<Longrightarrow> first_states df ic f ! 0 = init_sim ic"
  by (cases df) (simp_all add: first_states_def)

lemma second_states_0: "df \<noteq> [] \<Longrightarrow> second_states df ic f ! 0 = init_sim2 ic"
  by (cases df) (simp_all add: second_states_def)

lemma first_states_step:
  assumes "1 \<le> i" and "i < length df"
  shows "first_states df ic f ! i = step f (df ! i) (first_states df ic f ! (i - 1))"
proof -
  from assms obtain b rest where df: "df = b # rest" by (cases df) auto
  from assms(1) obtain j where i: "i = Suc j" by (cases i) auto
  with assms(2) df have j: "j < length rest" by simp
  show ?thesis
    using nth_states [OF j, of f "init_sim ic"] by (simp add: df i first_states_def)
qed

lemma second_states_step:
  assumes "1 \<le> i" and "i < length df"
  shows "second_states df ic f ! i = step2 f (df ! i) (second_states df ic f ! (i - 1))"
proof -
  from assms obtain b rest where df: "df = b # rest" by (cases df) auto
  from assms(1) obtain j where i: "i = Suc j" by (cases i) auto
  with assms(2) df have j: "j < length rest" by simp
  show ?thesis
    using nth_states2 [OF j, of f "init_sim2 ic"] by (simp add: df i second_states_def)
qed

lemma same_ledger_init: "same_ledger (init_sim ic) (init_sim2 ic)"
  by (simp add: same_ledger_def init_sim_def init_sim2_def)

lemma same_ledger_step:
  "same_ledger s t \<Longrightarrow> same_ledger (step f b s) (step2 f b t)"
  by (auto simp: same_ledger_def step_def step2_def Let_def)

lemma same_ledger_states:
  "same_ledger s t \<Longrightarrow> list_all2 same_ledger (states f bs s) (states2 f bs t)"
proof (induction bs arbitrary: s t)
  case Nil
  then show ?case by simp
next
  case (Cons b bs)
  from Cons.prems have "same_ledger (step f b s) (step2 f b t)"
    by (rule same_ledger_step)
  with Cons.IH show ?case by (simp add: Let_def)
qed

lemma same_ledger_runs:
  "list_all2 same_ledger (first_states df ic f) (second_states df ic f)"
  by (cases df)
     (simp_all add: first_states_def second_states_def same_ledger_init same_ledger_states)

lemma positions_agree:
  "map position (first_states df ic f) = map pos (second_states df ic f)"
proof -
  have "list_all2 (\<lambda>s t. position s = pos t) (first_states df ic f) (second_states df ic f)"
    using same_ledger_runs [of df ic f]
    by (rule list_all2_mono) (simp add: same_ledger_def)
  then show ?thesis
    by (simp add: list_all2_conv_all_nth list_eq_iff_nth_eq)
qed

lemma backtest_ema_columns:
  assumes "backtest_ema df ic f = Inr r"
  shows "position_col r = map position (first_states df ic f) \<and>
         portfolio_value r = map2 value_of (second_states df ic f) df"
  using assms
  by (cases df)
     (auto simp: backtest_ema_def first_loop_states second_loop_states first_states_def
        second_states_def value_of_def init_sim2_def init_sim_def Let_def
        split: sum.splits)

lemma fsub_Fin [simp]: "fsub (Fin a) (Fin b) = Fin (a - b)"
  by (simp add: fsub_def)

lemma fadd_zero_left [simp]: "fadd (Fin 0) x = x"
  by (cases x) simp_all

lemma num_fl_mul [simp]: "num_fl (num_mul a b) = fmul (num_fl a) (num_fl b)"
  by (cases a; cases b) simp_all

lemma num_fl_sub [simp]: "num_fl (num_sub a b) = fsub (num_fl a) (num_fl b)"
  by (cases a; cases b) simp_all

lemma num_fl_add [simp]: "num_fl (num_add a b) = fadd (num_fl a) (num_fl b)"
  by (cases a; cases b) simp_all

lemma num_fl_np_div [simp]: "num_fl (np_div x c) = fdiv (num_fl x) (Fin c)"
  by (simp add: np_div_def)

lemma num_fl_np_mul [simp]: "num_fl (np_mul x c) = fmul (num_fl x) (Fin c)"
  by (simp add: np_mul_def)



text \<open>The three cases of the loop body of the first loop.\<close>

lemma step_buy:
  "position s = 0 \<Longrightarrow> signal b = 1 \<Longrightarrow>
   step f b s = s\<lparr>position := 1, entry_price := close b,
                   shares := np_div (num_sub (capital s) (num_mul (capital s) (Py f))) (close b)\<rparr>"
  by (simp add: step_def Let_def)

lemma step_sell:
  "position s = 1 \<Longrightarrow> signal b = - 1 \<Longrightarrow>
   step f b s = s\<lparr>position := 0,
                   capital := num_sub (np_mul (shares s) (close b))
                                (num_mul (np_mul (shares s) (close b)) (Py f)),
                   shares := Py 0\<rparr>"
  by (simp add: step_def Let_def)

lemma step_idle:
  "\<not> (position s = 0 \<and> signal b = 1) \<Longrightarrow> \<not> (position s = 1 \<and> signal b = - 1) \<Longrightarrow>
   step f b s = s"
  by (auto simp: step_def Let_def)

lemma step2_buy:
  "pos t = 0 \<Longrightarrow> signal b = 1 \<Longrightarrow>
   step2 f b t = t\<lparr>pos := 1, entry_p := close b,
                    cap_temp := num_sub (cap_temp t) (num_mul (cap_temp t) (Py f)),
                    sh := np_div (num_sub (cap_temp t) (num_mul (cap_temp t) (Py f))) (close b)\<rparr>"
  by (simp add: step2_def Let_def)

lemma step2_sell:
  "pos t = 1 \<Longrightarrow> signal b = - 1 \<Longrightarrow>
   step2 f b t = t\<lparr>pos := 0,
                    cap_temp := num_sub (np_mul (sh t) (close b))
                                  (num_mul (np_mul (sh t) (close b)) (Py f)),
                    sh := Py 0\<rparr>"
  by (simp add: step2_def Let_def)

lemma step2_idle:
  "\<not> (pos t = 0 \<and> signal b = 1) \<Longrightarrow> \<not> (pos t = 1 \<and> signal b = - 1) \<Longrightarrow>
   step2 f b t = t"
  by (auto simp: step2_def Let_def)

lemma same_ledger_nth:
  "i < length df \<Longrightarrow> same_ledger (first_states df ic f ! i) (second_states df ic f ! i)"
  using same_ledger_runs [of df ic f]
  by (simp add: list_all2_conv_all_nth length_first_states)

text \<open>Invariants of the loops are proved along the index.\<close>

lemma first_states_invariant:
  assumes init: "P (init_sim ic)"
    and step: "\<And>s b. P s \<Longrightarrow> b \<in> set df \<Longrightarrow> P (step f b s)"
    and i: "i < length df"
  shows "P (first_states df ic f ! i)"
  using i
proof (induction i)
  case 0
  then have "df \<noteq> []" by auto
  with init show ?case by (simp add: first_states_0)
next
  case (Suc j)
  then have j: "j < length df" and m: "df ! Suc j \<in> set df" by simp_all
  from Suc.IH [OF j] have "P (step f (df ! Suc j) (first_states df ic f ! j))"
    using m by (rule step)
  with first_states_step [of "Suc j" df ic f] Suc.prems show ?case by simp
qed

lemma app_states_invariant:
  assumes init: "P s0"
    and step: "\<And>s b. P s \<Longrightarrow> b \<in> set df \<Longrightarrow> P (app_step b s)"
    and i: "i < Suc (length df)"
  shows "P ((s0 # app_states df s0) ! i)"
  using i
proof (induction i)
  case 0
  with init show ?case by simp
next
  case (Suc j)
  then have j: "j < length df" and m: "df ! j \<in> set df" by simp_all
  then have j': "j < Suc (length df)" by simp
  from Suc.IH [OF j'] have "P (app_step (df ! j) ((s0 # app_states df s0) ! j))"
    using m by (rule step)
  with nth_app_states [OF j, of s0] show ?case by simp
qed

text \<open>The position is 0 or 1 throughout, and a flat state holds no shares.\<close>

lemma position_0_or_1:
  assumes "i < length df"
  shows "(position (first_states df ic f ! i) = 0 \<and> shares (first_states df ic f ! i) = Py 0)
         \<or> position (first_states df ic f ! i) = 1"
proof (rule first_states_invariant [where P = "\<lambda>s. (position s = 0 \<and> shares s = Py 0) \<or> position s = 1"])
  show "(position (init_sim ic) = 0 \<and> shares (init_sim ic) = Py 0) \<or> position (init_sim ic) = 1"
    by (simp add: init_sim_def)
  show "(position (step f b s) = 0 \<and> shares (step f b s) = Py 0) \<or> position (step f b s) = 1"
    if "(position s = 0 \<and> shares s = Py 0) \<or> position s = 1" for s b
    using that by (auto simp: step_def Let_def)
  show "i < length df" by (rule assms)
qed

section \<open>The two loops of \<open>backtest_ema\<close> agree\<close>

text \<open>
  C10. The first loop (which writes the position column) and the second loop (which
  builds the portfolio curve) are in the same position at every index of every frame:
  the positions of the first loop's states are those of the second loop's states, the
  position column the first loop writes is that list, and the curve is the valuation of
  the second loop's states.
\<close>

theorem two_passes_same_position:
  "map position (first_states df initial_capital fee_percent) =
     map pos (second_states df initial_capital fee_percent) \<and>
   (case df of [] \<Rightarrow> [] | _ # rest \<Rightarrow> 0 # fst (first_loop fee_percent rest (init_sim initial_capital))) =
     map pos (second_states df initial_capital fee_percent) \<and>
   (case df of [] \<Rightarrow> []
    | _ # rest \<Rightarrow> cap_temp (init_sim2 initial_capital)
                     # second_loop fee_percent rest (init_sim2 initial_capital)) =
     map2 value_of (second_states df initial_capital fee_percent) df"
proof -
  have a: "map position (first_states df initial_capital fee_percent) =
           map pos (second_states df initial_capital fee_percent)"
    by (rule positions_agree)
  have b: "(case df of [] \<Rightarrow> []
            | _ # rest \<Rightarrow> 0 # fst (first_loop fee_percent rest (init_sim initial_capital))) =
           map position (first_states df initial_capital fee_percent)"
    by (cases df) (simp_all add: first_states_def first_loop_states init_sim_def)
  have c: "(case df of [] \<Rightarrow> []
            | _ # rest \<Rightarrow> cap_temp (init_sim2 initial_capital)
                     # second_loop fee_percent rest (init_sim2 initial_capital)) =
           map2 value_of (second_states df initial_capital fee_percent) df"
    by (cases df)
       (simp_all add: second_states_def second_loop_states init_sim2_def value_of_def)
  from a b c show ?thesis by simp
qed

theorem two_passes_same_position_witness:
  "map position (first_states [row_of 100 0, row_of 100 1, row_of 110 (- 1)] 1000 (1 / 100)) = [0, 1, 0] \<and>
   map pos (second_states [row_of 100 0, row_of 100 1, row_of 110 (- 1)] 1000 (1 / 100)) = [0, 1, 0]"
proof -
  have "map position (first_states [row_of 100 0, row_of 100 1, row_of 110 (- 1)] 1000 (1 / 100)) = [0, 1, 0]"
    by (simp add: first_states_def init_sim_def step_def row_of_def Let_def)
  with two_passes_same_position [of "[row_of 100 0, row_of 100 1, row_of 110 (- 1)]" 1000 "1 / 100"]
  show ?thesis by simp
qed

section \<open>Index 0\<close>

lemma liquidate_signal_0:
  "liquidate f (b\<lparr>signal := g\<rparr> # bs) s = liquidate f (b # bs) s"
  by (cases "bs = []") (simp_all add: liquidate_def)

lemma backtest_ema_signal_0:
  "backtest_ema (b\<lparr>signal := g\<rparr> # bs) ic f = backtest_ema (b # bs) ic f"
  by (simp add: backtest_ema_def liquidate_signal_0 split: prod.split sum.split)

lemma engine_signal_0:
  assumes "calculate_ema_strategy closes sw lw = Inr rows" and "rows \<noteq> []"
  shows "signal (rows ! 0) = 0"
proof -
  from calculate_rows [OF assms(1)] obtain es el
    where es: "ewm_mean sw closes = Inr es" and el: "ewm_mean lw closes = Inr el"
      and len: "length rows = length closes"
      and nth: "\<forall>i<length closes. rows ! i =
              \<lparr>close = closes ! i, ema_short = es ! i, ema_long = el ! i,
               signal = (if es ! i < el ! i then - 1 else if es ! i > el ! i then 1 else 0)\<rparr>"
    by blast
  from assms(2) len have ne: "closes \<noteq> []" by auto
  then have "0 < length closes" by simp
  with nth have "signal (rows ! 0) = (if es ! 0 < el ! 0 then - 1 else if es ! 0 > el ! 0 then 1 else 0)"
    by simp
  with ewm_mean_0 [OF es ne] ewm_mean_0 [OF el ne] show ?thesis by simp
qed

text \<open>
  C4 (amended). In \<open>backtest.py\<close> index 0 never triggers a transition: both
  loops are in their initial state after row 0, the result does not depend on
  \<open>signal[0]\<close>, the position column starts with 0 and the curve starts with
  the initial capital. The simulator of \<open>app.py\<close> walks row 0 like every other
  row: a Buy at index 0 opens the position there; when \<open>signal[0]\<close> is not
  Buy, row 0 changes nothing and the curve starts with the initial capital. The signal
  engine always puts Neutral at index 0.
\<close>

theorem index_zero_no_transition:
  "first_states (b # bs) initial_capital fee_percent ! 0 = init_sim initial_capital \<and>
   second_states (b # bs) initial_capital fee_percent ! 0 = init_sim2 initial_capital \<and>
   backtest_ema (b\<lparr>signal := g\<rparr> # bs) initial_capital fee_percent =
     backtest_ema (b # bs) initial_capital fee_percent \<and>
   (\<forall>r. backtest_ema (b # bs) initial_capital fee_percent = Inr r \<longrightarrow>
      position_col r ! 0 = 0 \<and> portfolio_value r ! 0 = Py initial_capital) \<and>
   (signal b \<noteq> 1 \<longrightarrow>
      app_states (b # bs) (app_init initial_capital) ! 0 = app_init initial_capital \<and>
      app_loop (b # bs) (app_init initial_capital) ! 0 = Py initial_capital) \<and>
   (signal b = 1 \<longrightarrow>
      app_states (b # bs) (app_init initial_capital) ! 0 =
        \<lparr>app_position = np_div (Py initial_capital) (close b), balance = Py 0\<rparr>) \<and>
   (\<forall>closes short_window long_window rows.
      calculate_ema_strategy closes short_window long_window = Inr rows \<and> rows \<noteq> [] \<longrightarrow>
      signal (rows ! 0) = 0)"
proof -
  have a: "first_states (b # bs) initial_capital fee_percent ! 0 = init_sim initial_capital"
    by (simp add: first_states_0)
  have b: "second_states (b # bs) initial_capital fee_percent ! 0 = init_sim2 initial_capital"
    by (simp add: second_states_0)
  have c: "backtest_ema (b\<lparr>signal := g\<rparr> # bs) initial_capital fee_percent =
           backtest_ema (b # bs) initial_capital fee_percent"
    by (rule backtest_ema_signal_0)
  have d: "position_col r ! 0 = 0 \<and> portfolio_value r ! 0 = Py initial_capital"
    if "backtest_ema (b # bs) initial_capital fee_percent = Inr r" for r
    using backtest_ema_columns [OF that]
    by (simp add: first_states_def second_states_def init_sim_def init_sim2_def value_of_def)
  have e: "app_states (b # bs) (app_init initial_capital) ! 0 = app_init initial_capital \<and>
           app_loop (b # bs) (app_init initial_capital) ! 0 = Py initial_capital"
    if "signal b \<noteq> 1"
    using that by (simp add: app_step_def app_init_def app_value_def Let_def)
  have f: "app_states (b # bs) (app_init initial_capital) ! 0 =
             \<lparr>app_position = np_div (Py initial_capital) (close b), balance = Py 0\<rparr>"
    if "signal b = 1"
    using that by (simp add: app_step_def app_init_def Let_def)
  have g: "signal (rows ! 0) = 0"
    if "calculate_ema_strategy closes short_window long_window = Inr rows \<and> rows \<noteq> []"
    for closes short_window long_window rows
    using that engine_signal_0 by blast
  from a b c d e f g show ?thesis by blast
qed

theorem index_zero_no_transition_witness:
  "backtest_ema [row_of 10 1, row_of 20 0] 1000 (1 / 1000) =
     Inr \<lparr>position_col = [0, 0], portfolio_value = [Py 1000, Py 1000], roi = Py 0\<rparr> \<and>
   backtest_ema [row_of 10 0, row_of 20 0] 1000 (1 / 1000) =
     Inr \<lparr>position_col = [0, 0], portfolio_value = [Py 1000, Py 1000], roi = Py 0\<rparr> \<and>
   app_states [row_of 10 0, row_of 20 0] (app_init 1000) ! 0 = app_init 1000 \<and>
   app_loop [row_of 10 0, row_of 20 0] (app_init 1000) ! 0 = Py 1000"
proof -
  have r: "backtest_ema [row_of 10 0, row_of 20 0] 1000 (1 / 1000) =
     Inr \<lparr>position_col = [0, 0], portfolio_value = [Py 1000, Py 1000], roi = Py 0\<rparr>"
    by (simp add: backtest_ema_def liquidate_def roi_of_def init_sim_def init_sim2_def
        step_def step2_def value_of_def row_of_def Let_def)
  have u: "(row_of 10 0)\<lparr>signal := 1\<rparr> = row_of 10 1"
    by (simp add: row_of_def)
  have n: "signal (row_of 10 0) \<noteq> 1"
    by (simp add: row_of_def)
  from index_zero_no_transition [of "row_of 10 0" "[row_of 20 0]" 1000 "1 / 1000" 1] r u n
  show ?thesis by simp
qed

text \<open>
  C4 as stated fails in \<open>app.py\<close>: with a Buy at index 0 the simulator is
  flat before row 0 and holds 100 shares after it, and the curve doubles with the price
  of the next row.
\<close>

theorem index_zero_transition_in_app_counterexample:
  "app_states [row_of 10 1, row_of 20 0] (app_init 1000) ! 0 =
     \<lparr>app_position = Np (Fin 100), balance = Py 0\<rparr> \<and>
   app_position (app_init 1000) = Py 0 \<and>
   app_backtest_ema [row_of 10 1, row_of 20 0] 1000 =
     Inr ([Np (Fin 1000), Np (Fin 2000)], Np (Fin 100))"
  by (simp add: app_backtest_ema_def app_step_def app_init_def app_value_def roi_of_def
      np_div_def np_mul_def fsub_def row_of_def Let_def)

section \<open>Transitions\<close>

lemma app_step_buy:
  "signal b = 1 \<Longrightarrow> fl_eq0 (num_fl (app_position s)) \<Longrightarrow>
   app_step b s = \<lparr>app_position = np_div (balance s) (close b), balance = Py 0\<rparr>"
  by (simp add: app_step_def)

lemma app_step_sell:
  "signal b = - 1 \<Longrightarrow> fl_gt0 (num_fl (app_position s)) \<Longrightarrow>
   app_step b s = \<lparr>app_position = Py 0, balance = np_mul (app_position s) (close b)\<rparr>"
  by (simp add: app_step_def)

lemma app_step_idle:
  "\<not> (signal b = 1 \<and> fl_eq0 (num_fl (app_position s))) \<Longrightarrow>
   \<not> (signal b = - 1 \<and> fl_gt0 (num_fl (app_position s))) \<Longrightarrow>
   app_step b s = s"
  by (auto simp: app_step_def)

text \<open>
  C3 (amended). At a row \<open>i \<ge> 1\<close> of \<open>backtest.py\<close>'s simulator, with
  \<open>cash\<close> the cash variable before the row: on Buy while flat the position becomes
  1 and \<open>shares = (cash - cash * fee) / close[i]\<close>, but the cash variable is not set
  to 0 (the first loop leaves it as it is, the second loop leaves \<open>cash - fee\<close> in
  it); on Sell while long, with \<open>sale = shares * close[i]\<close>, the position becomes 0,
  \<open>cash = sale - sale * fee\<close> and the shares become 0; any other row leaves the
  variables of both loops unchanged. The simulator of \<open>app.py\<close> does the same at
  every row without a fee, and does set its cash to 0 on entry.
\<close>

theorem transitions_of_the_simulators:
  fixes df :: "bar list" and initial_capital fee_percent :: real and i :: nat
  defines "s \<equiv> first_states df initial_capital fee_percent ! (i - 1)"
    and "s' \<equiv> first_states df initial_capital fee_percent ! i"
    and "t \<equiv> second_states df initial_capital fee_percent ! (i - 1)"
    and "t' \<equiv> second_states df initial_capital fee_percent ! i"
    and "a \<equiv> (app_init initial_capital # app_states df (app_init initial_capital)) ! i"
    and "a' \<equiv> app_states df (app_init initial_capital) ! i"
    and "c \<equiv> close (df ! i)"
    and "g \<equiv> signal (df ! i)"
  assumes i: "i < length df"
  shows
    "(1 \<le> i \<and> position s = 0 \<and> g = 1 \<longrightarrow>
        position s' = 1 \<and>
        num_fl (shares s') =
          fdiv (fsub (num_fl (capital s)) (fmul (num_fl (capital s)) (Fin fee_percent))) (Fin c) \<and>
        capital s' = capital s \<and>
        pos t' = 1 \<and> sh t' = shares s' \<and>
        num_fl (cap_temp t') =
          fsub (num_fl (capital s)) (fmul (num_fl (capital s)) (Fin fee_percent))) \<and>
     (1 \<le> i \<and> position s = 1 \<and> g = - 1 \<longrightarrow>
        position s' = 0 \<and> shares s' = Py 0 \<and>
        num_fl (capital s') =
          fsub (fmul (num_fl (shares s)) (Fin c))
               (fmul (fmul (num_fl (shares s)) (Fin c)) (Fin fee_percent)) \<and>
        pos t' = 0 \<and> sh t' = Py 0 \<and> cap_temp t' = capital s') \<and>
     (1 \<le> i \<and> \<not> (position s = 0 \<and> g = 1) \<and> \<not> (position s = 1 \<and> g = - 1) \<longrightarrow>
        s' = s \<and> t' = t) \<and>
     (g = 1 \<and> fl_eq0 (num_fl (app_position a)) \<longrightarrow>
        num_fl (app_position a') = fdiv (num_fl (balance a)) (Fin c) \<and> balance a' = Py 0) \<and>
     (g = - 1 \<and> fl_gt0 (num_fl (app_position a)) \<longrightarrow>
        num_fl (balance a') = fmul (num_fl (app_position a)) (Fin c) \<and> app_position a' = Py 0) \<and>
     (\<not> (g = 1 \<and> fl_eq0 (num_fl (app_position a))) \<and>
      \<not> (g = - 1 \<and> fl_gt0 (num_fl (app_position a))) \<longrightarrow> a' = a)"
proof -
  have app: "a' = app_step (df ! i) a"
    unfolding a_def a'_def using nth_app_states [OF i] by simp
  have A: "num_fl (app_position a') = fdiv (num_fl (balance a)) (Fin c) \<and> balance a' = Py 0"
    if "g = 1 \<and> fl_eq0 (num_fl (app_position a))"
    using that app_step_buy [of "df ! i" a] by (simp add: app g_def c_def)
  have B: "num_fl (balance a') = fmul (num_fl (app_position a)) (Fin c) \<and> app_position a' = Py 0"
    if "g = - 1 \<and> fl_gt0 (num_fl (app_position a))"
    using that app_step_sell [of "df ! i" a] by (simp add: app g_def c_def)
  have C: "a' = a"
    if "\<not> (g = 1 \<and> fl_eq0 (num_fl (app_position a))) \<and>
        \<not> (g = - 1 \<and> fl_gt0 (num_fl (app_position a)))"
    using that app_step_idle [of "df ! i" a] by (simp add: app g_def)
  have D: "(position s = 0 \<and> g = 1 \<longrightarrow>
        position s' = 1 \<and>
        num_fl (shares s') =
          fdiv (fsub (num_fl (capital s)) (fmul (num_fl (capital s)) (Fin fee_percent))) (Fin c) \<and>
        capital s' = capital s \<and>
        pos t' = 1 \<and> sh t' = shares s' \<and>
        num_fl (cap_temp t') =
          fsub (num_fl (capital s)) (fmul (num_fl (capital s)) (Fin fee_percent))) \<and>
     (position s = 1 \<and> g = - 1 \<longrightarrow>
        position s' = 0 \<and> shares s' = Py 0 \<and>
        num_fl (capital s') =
          fsub (fmul (num_fl (shares s)) (Fin c))
               (fmul (fmul (num_fl (shares s)) (Fin c)) (Fin fee_percent)) \<and>
        pos t' = 0 \<and> sh t' = Py 0 \<and> cap_temp t' = capital s') \<and>
     (\<not> (position s = 0 \<and> g = 1) \<and> \<not> (position s = 1 \<and> g = - 1) \<longrightarrow>
        s' = s \<and> t' = t)"
    if i1: "1 \<le> i"
  proof -
    have s': "s' = step fee_percent (df ! i) s"
      unfolding s_def s'_def by (rule first_states_step [OF i1 i])
    have t': "t' = step2 fee_percent (df ! i) t"
      unfolding t_def t'_def by (rule second_states_step [OF i1 i])
    from i have "i - 1 < length df" by simp
    then have "same_ledger s t"
      unfolding s_def t_def by (rule same_ledger_nth)
    then have st: "pos t = position s" "sh t = shares s" "position s = 0 \<Longrightarrow> cap_temp t = capital s"
      by (simp_all add: same_ledger_def)
    have buy: ?thesis if "position s = 0" "g = 1"
      using that st step_buy [of s "df ! i" fee_percent] step2_buy [of t "df ! i" fee_percent]
      by (simp add: s' t' g_def c_def)
    have sell: ?thesis if "position s = 1" "g = - 1"
      using that st step_sell [of s "df ! i" fee_percent] step2_sell [of t "df ! i" fee_percent]
      by (simp add: s' t' g_def c_def)
    have idle: ?thesis if "\<not> (position s = 0 \<and> g = 1)" "\<not> (position s = 1 \<and> g = - 1)"
      using that st step_idle [of s "df ! i" fee_percent] step2_idle [of t "df ! i" fee_percent]
      by (simp add: s' t' g_def)
    from buy sell idle show ?thesis by blast
  qed
  from A B C D show ?thesis by blast
qed

theorem transitions_of_the_simulators_witness:
  "position (first_states [row_of 100 0, row_of 100 1, row_of 110 (- 1)] 1000 (1 / 100) ! 1) = 1 \<and>
   num_fl (shares (first_states [row_of 100 0, row_of 100 1, row_of 110 (- 1)] 1000 (1 / 100) ! 1))
     = Fin (99 / 10) \<and>
   position (first_states [row_of 100 0, row_of 100 1, row_of 110 (- 1)] 1000 (1 / 100) ! 2) = 0 \<and>
   num_fl (capital (first_states [row_of 100 0, row_of 100 1, row_of 110 (- 1)] 1000 (1 / 100) ! 2))
     = Fin (107811 / 100)"
proof -
  let ?df = "[row_of 100 0, row_of 100 1, row_of 110 (- 1)]"
  have z: "first_states ?df 1000 (1 / 100) ! 0 = init_sim 1000"
    by (simp add: first_states_def)
  have one: "position (first_states ?df 1000 (1 / 100) ! 1) = 1 \<and>
             num_fl (shares (first_states ?df 1000 (1 / 100) ! 1)) = Fin (99 / 10)"
    using transitions_of_the_simulators [where df = ?df and i = 1 and initial_capital = 1000
        and fee_percent = "1 / 100"] z
    by (simp add: init_sim_def row_of_def)
  have two: "position (first_states ?df 1000 (1 / 100) ! 2) = 0 \<and>
             num_fl (capital (first_states ?df 1000 (1 / 100) ! 2)) = Fin (107811 / 100)"
    using transitions_of_the_simulators [where df = ?df and i = 2 and initial_capital = 1000
        and fee_percent = "1 / 100"] one
    by (simp add: row_of_def)
  from one two show ?thesis by simp
qed

text \<open>
  C3 as stated fails in \<open>backtest.py\<close>: after the Buy at row 1 the simulator is in
  position, and the cash variable of the first loop still holds 1000 and that of the
  second loop 999, not 0.
\<close>

theorem cash_not_zeroed_on_entry_counterexample:
  "position (first_states [row_of 100 0, row_of 100 1] 1000 (1 / 1000) ! 0) = 0 \<and>
   signal ([row_of 100 0, row_of 100 1] ! 1) = 1 \<and>
   position (first_states [row_of 100 0, row_of 100 1] 1000 (1 / 1000) ! 1) = 1 \<and>
   capital (first_states [row_of 100 0, row_of 100 1] 1000 (1 / 1000) ! 1) = Py 1000 \<and>
   cap_temp (second_states [row_of 100 0, row_of 100 1] 1000 (1 / 1000) ! 1) = Py 999"
  by (simp add: first_states_def second_states_def init_sim_def init_sim2_def step_def
      step2_def row_of_def Let_def)

section \<open>Return on investment and the curve\<close>

lemma first_loop_last:
  "df \<noteq> [] \<Longrightarrow> snd (first_loop f (tl df) (init_sim ic)) = last (first_states df ic f)"
  by (cases df) (simp_all add: first_loop_states first_states_def)

lemma last_nth_length:
  "length xs = length ys \<Longrightarrow> ys \<noteq> [] \<Longrightarrow> last xs = xs ! (length ys - 1)"
proof -
  assume len: "length xs = length ys" and ne: "ys \<noteq> []"
  then have "xs \<noteq> []" by auto
  then have "last xs = xs ! (length xs - 1)" by (rule last_conv_nth)
  with len show ?thesis by simp
qed

lemma last_map2:
  "length xs = length ys \<Longrightarrow> xs \<noteq> [] \<Longrightarrow> last (map2 g xs ys) = g (last xs) (last ys)"
proof -
  assume len: "length xs = length ys" and ne: "xs \<noteq> []"
  then have "ys \<noteq> []" by auto
  with len ne show ?thesis by (simp add: last_conv_nth)
qed

lemma roi_of_Np:
  "roi_of (Np x) ic = Inr (Np (fmul (fdiv (fsub x (Fin ic)) (Fin ic)) (Fin 100)))"
  by (simp add: roi_of_def)

lemma liquidate_long:
  "position s = 1 \<Longrightarrow> df \<noteq> [] \<Longrightarrow>
   liquidate f df s =
     Inr (s\<lparr>capital := Np (fsub (fmul (num_fl (shares s)) (Fin (close (last df))))
                             (fmul (fmul (num_fl (shares s)) (Fin (close (last df)))) (Fin f))),
            position := 0, shares := Py 0\<rparr>)"
  by (cases df) (simp_all add: liquidate_def np_mul_def Let_def)

lemma liquidate_flat: "position s \<noteq> 1 \<Longrightarrow> liquidate f df s = Inr s"
  by (simp add: liquidate_def)

text \<open>The curve, read off the variables of the first loop.\<close>

lemma curve_from_first_loop:
  assumes "i < length df"
  shows "value_of (second_states df ic f ! i) (df ! i) =
           (if position (first_states df ic f ! i) = 1
            then np_mul (shares (first_states df ic f ! i)) (close (df ! i))
            else capital (first_states df ic f ! i))"
  using same_ledger_nth [OF assms, of ic f] position_0_or_1 [OF assms, of ic f]
  by (auto simp: same_ledger_def value_of_def)

lemma backtest_ema_long:
  assumes ne: "df \<noteq> []" and long: "position (last (first_states df ic f)) = 1"
  shows "\<exists>r. backtest_ema df ic f = Inr r \<and>
           roi r = Np (fmul (fdiv (fsub
                     (fsub (fmul (num_fl (shares (last (first_states df ic f)))) (Fin (close (last df))))
                           (fmul (fmul (num_fl (shares (last (first_states df ic f)))) (Fin (close (last df))))
                                 (Fin f)))
                     (Fin ic)) (Fin ic)) (Fin 100))"
proof -
  obtain ps s1 where fl: "first_loop f (tl df) (init_sim ic) = (ps, s1)"
    by (cases "first_loop f (tl df) (init_sim ic)")
  with first_loop_last [OF ne, of f ic] have s1: "s1 = last (first_states df ic f)" by simp
  show ?thesis
    using long liquidate_long [of s1 df f] ne
    by (simp add: backtest_ema_def fl s1 [symmetric] roi_of_Np)
qed

lemma app_cash_invariant:
  assumes "i < Suc (length df)"
  shows "fl_gt0 (num_fl (app_position ((app_init ic # app_states df (app_init ic)) ! i))) \<longrightarrow>
         balance ((app_init ic # app_states df (app_init ic)) ! i) = Py 0"
proof (rule app_states_invariant [where P = "\<lambda>s. fl_gt0 (num_fl (app_position s)) \<longrightarrow> balance s = Py 0"])
  show "fl_gt0 (num_fl (app_position (app_init ic))) \<longrightarrow> balance (app_init ic) = Py 0"
    by (simp add: app_init_def)
  show "fl_gt0 (num_fl (app_position (app_step b s))) \<longrightarrow> balance (app_step b s) = Py 0"
    if "fl_gt0 (num_fl (app_position s)) \<longrightarrow> balance s = Py 0" for s b
    using that by (auto simp: app_step_def)
  show "i < Suc (length df)" by (rule assms)
qed

lemma app_backtest_long:
  assumes ne: "df \<noteq> []"
    and long: "fl_gt0 (num_fl (app_position (last (app_states df (app_init ic)))))"
  shows "\<exists>pv r. app_backtest_ema df ic = Inr (pv, r) \<and>
           last pv = Np (fmul (num_fl (app_position (last (app_states df (app_init ic)))))
                              (Fin (close (last df)))) \<and>
           r = Np (fmul (fdiv (fsub
                    (fmul (num_fl (app_position (last (app_states df (app_init ic)))))
                          (Fin (close (last df))))
                    (Fin ic)) (Fin ic)) (Fin 100))"
proof -
  let ?st = "app_states df (app_init ic)"
  have len: "length ?st = length df" by (rule length_app_states)
  with ne have st_ne: "?st \<noteq> []" by auto
  have "last ?st = (app_init ic # ?st) ! length df"
    using st_ne len ne by (simp add: last_conv_nth nth_Cons_pos)
  with app_cash_invariant [of "length df" df ic] long
  have bal: "balance (last ?st) = Py 0" by simp
  have pv: "app_loop df (app_init ic) = map2 app_value ?st df"
    by (rule app_loop_states)
  have lastpv: "last (app_loop df (app_init ic)) =
                Np (fmul (num_fl (app_position (last ?st))) (Fin (close (last df))))"
    using long bal by (simp add: pv last_map2 [OF len st_ne] app_value_def np_mul_def)
  have "app_loop df (app_init ic) \<noteq> []"
    using ne st_ne by (simp add: pv)
  then obtain x xs where cons: "app_loop df (app_init ic) = x # xs"
    by (cases "app_loop df (app_init ic)") auto
  from lastpv cons show ?thesis
    by (simp add: app_backtest_ema_def roi_of_Np)
qed

text \<open>
  C5. When the first loop of \<open>backtest.py\<close> ends in position, the run returns a
  result whose ROI is \<open>(cash - initial_capital) / initial_capital * 100\<close> for the
  cash of a sale of the held shares at the last close with the fee taken off, while the
  last point of the curve is the fee-free \<open>shares * close[last]\<close>; every point of
  the curve is the valuation of the first loop's variables at that index as they were
  before the forced sale. The simulator of \<open>app.py\<close> has neither fee nor forced
  sale: when it ends in position its ROI is that of its last curve point,
  \<open>shares * close[last]\<close>.
\<close>

theorem roi_from_forced_liquidation:
  fixes df :: "bar list" and initial_capital fee_percent :: real
  defines "s \<equiv> last (first_states df initial_capital fee_percent)"
    and "last_close \<equiv> close (last df)"
    and "a \<equiv> last (app_states df (app_init initial_capital))"
  defines "sale \<equiv> fmul (num_fl (shares s)) (Fin last_close)"
  assumes ne: "df \<noteq> []"
  shows
    "(position s = 1 \<longrightarrow>
        (\<exists>r. backtest_ema df initial_capital fee_percent = Inr r \<and>
              roi r = Np (fmul (fdiv (fsub (fsub sale (fmul sale (Fin fee_percent)))
                                           (Fin initial_capital))
                                     (Fin initial_capital))
                               (Fin 100)) \<and>
              last (portfolio_value r) = Np sale \<and>
              (\<forall>i<length df.
                 portfolio_value r ! i =
                   (if position (first_states df initial_capital fee_percent ! i) = 1
                    then np_mul (shares (first_states df initial_capital fee_percent ! i))
                           (close (df ! i))
                    else capital (first_states df initial_capital fee_percent ! i))))) \<and>
     (fl_gt0 (num_fl (app_position a)) \<longrightarrow>
        (\<exists>pv r. app_backtest_ema df initial_capital = Inr (pv, r) \<and>
                 last pv = Np (fmul (num_fl (app_position a)) (Fin last_close)) \<and>
                 r = Np (fmul (fdiv (fsub (fmul (num_fl (app_position a)) (Fin last_close))
                                          (Fin initial_capital))
                                    (Fin initial_capital))
                              (Fin 100))))"
proof -
  have A: "\<exists>r. backtest_ema df initial_capital fee_percent = Inr r \<and>
              roi r = Np (fmul (fdiv (fsub (fsub sale (fmul sale (Fin fee_percent)))
                                           (Fin initial_capital))
                                     (Fin initial_capital))
                               (Fin 100)) \<and>
              last (portfolio_value r) = Np sale \<and>
              (\<forall>i<length df.
                 portfolio_value r ! i =
                   (if position (first_states df initial_capital fee_percent ! i) = 1
                    then np_mul (shares (first_states df initial_capital fee_percent ! i))
                           (close (df ! i))
                    else capital (first_states df initial_capital fee_percent ! i)))"
    if long: "position s = 1"
  proof -
    from backtest_ema_long [OF ne long [unfolded s_def]]
    obtain r where r: "backtest_ema df initial_capital fee_percent = Inr r"
      and roi: "roi r = Np (fmul (fdiv (fsub (fsub sale (fmul sale (Fin fee_percent)))
                                           (Fin initial_capital))
                                     (Fin initial_capital))
                               (Fin 100))"
      unfolding sale_def s_def last_close_def by blast
    from backtest_ema_columns [OF r]
    have pv: "portfolio_value r =
                map2 value_of (second_states df initial_capital fee_percent) df"
      by simp
    have curve: "portfolio_value r ! i =
                   (if position (first_states df initial_capital fee_percent ! i) = 1
                    then np_mul (shares (first_states df initial_capital fee_percent ! i))
                           (close (df ! i))
                    else capital (first_states df initial_capital fee_percent ! i))"
      if i: "i < length df" for i
      using curve_from_first_loop [OF i, of initial_capital fee_percent] i
      by (simp add: pv length_second_states)
    have len: "length (portfolio_value r) = length df"
      by (simp add: pv length_second_states)
    from ne have n1: "length df - 1 < length df" by simp
    have ls: "s = first_states df initial_capital fee_percent ! (length df - 1)"
      unfolding s_def by (rule last_nth_length [OF length_first_states ne])
    have "last (portfolio_value r) = portfolio_value r ! (length df - 1)"
      by (rule last_nth_length [OF len ne])
    also have "\<dots> = np_mul (shares s) (close (df ! (length df - 1)))"
      using curve [OF n1] long by (simp add: ls)
    also have "\<dots> = Np sale"
      using ne by (simp add: sale_def last_close_def np_mul_def last_conv_nth)
    finally have lastp: "last (portfolio_value r) = Np sale" .
    from r roi lastp curve show ?thesis by blast
  qed
  have B: "\<exists>pv r. app_backtest_ema df initial_capital = Inr (pv, r) \<and>
                 last pv = Np (fmul (num_fl (app_position a)) (Fin last_close)) \<and>
                 r = Np (fmul (fdiv (fsub (fmul (num_fl (app_position a)) (Fin last_close))
                                          (Fin initial_capital))
                                    (Fin initial_capital))
                              (Fin 100))"
    if "fl_gt0 (num_fl (app_position a))"
    using app_backtest_long [OF ne that [unfolded a_def]]
    unfolding a_def last_close_def by blast
  from A B show ?thesis by blast
qed

theorem roi_from_forced_liquidation_witness:
  "position (last (first_states [row_of 100 0, row_of 100 1, row_of 110 0] 1000 (1 / 100))) = 1 \<and>
   (\<exists>r. backtest_ema [row_of 100 0, row_of 100 1, row_of 110 0] 1000 (1 / 100) = Inr r \<and>
        roi r = Np (Fin (7811 / 1000)) \<and> last (portfolio_value r) = Np (Fin 1089)) \<and>
   (\<exists>pv r. app_backtest_ema [row_of 100 0, row_of 100 1, row_of 110 0] 1000 = Inr (pv, r) \<and>
        last pv = Np (Fin 1100) \<and> r = Np (Fin 10))"
proof -
  let ?df = "[row_of 100 0, row_of 100 1, row_of 110 0]"
  have s: "last (first_states ?df 1000 (1 / 100)) =
             \<lparr>position = 1, entry_price = 100, capital = Py 1000, shares = Np (Fin (99 / 10))\<rparr>"
    by (simp add: first_states_def init_sim_def step_def row_of_def np_div_def Let_def)
  have a: "last (app_states ?df (app_init 1000)) = \<lparr>app_position = Np (Fin 10), balance = Py 0\<rparr>"
    by (simp add: app_init_def app_step_def row_of_def np_div_def Let_def)
  have c: "close (last ?df) = 110"
    by (simp add: row_of_def)
  from roi_from_forced_liquidation [of ?df 1000 "1 / 100"] s a c
  show ?thesis by (auto simp del: app_states.simps)
qed

section \<open>A close of 0 at a purchase\<close>




lemma roi_of_nonzero: "ic \<noteq> 0 \<Longrightarrow> \<exists>q. roi_of x ic = Inr q"
  by (cases x) (simp_all add: roi_of_def)





section \<open>Parameters\<close>

lemma ewm_mean_rejects: "w < 1 \<Longrightarrow> ewm_mean w vals = Inl ValueError"
  by (simp add: ewm_mean_def)

lemma calculate_rejects:
  assumes "short_window < 1 \<or> long_window < 1"
  shows "calculate_ema_strategy closes short_window long_window = Inl ValueError"
proof (cases "short_window < 1")
  case True
  then show ?thesis
    by (simp add: calculate_ema_strategy_def ewm_mean_rejects)
next
  case False
  with assms have long: "long_window < 1" by simp
  from False have "1 \<le> short_window" by simp
  from ewm_mean_Inr [OF this, of closes]
  obtain es where "ewm_mean short_window closes = Inr es" by blast
  with long show ?thesis
    by (simp add: calculate_ema_strategy_def ewm_mean_rejects)
qed

lemma liquidate_after_loop:
  "\<exists>s2. liquidate f df (snd (first_loop f (tl df) (init_sim ic))) = Inr s2"
proof (cases df)
  case Nil
  then show ?thesis by (simp add: liquidate_def init_sim_def)
next
  case (Cons b bs)
  then show ?thesis by (simp add: liquidate_def Let_def)
qed

lemma backtest_ema_Inr:
  assumes "ic \<noteq> 0"
  shows "\<exists>r. backtest_ema df ic f = Inr r"
proof -
  obtain ps s1 where fl: "first_loop f (tl df) (init_sim ic) = (ps, s1)"
    by (cases "first_loop f (tl df) (init_sim ic)")
  from liquidate_after_loop [of f df ic] fl
  obtain s2 where s2: "liquidate f df s1 = Inr s2" by auto
  from roi_of_nonzero [OF assms] obtain q where q: "roi_of (capital s2) ic = Inr q" by blast
  show ?thesis
    by (simp add: backtest_ema_def fl s2 q)
qed

text \<open>
  C7 (amended). A window below 1 (short or long) makes the signal engine fail with the
  ValueError that pandas' \<open>ewm\<close> raises, whatever the close column. The simulator
  of \<open>backtest.py\<close> does not look at the fee rate before computing: for every fee
  rate, negative or 1 and above included, and every frame it returns a result (when the
  initial capital is not 0, so that the ROI can be divided out).
\<close>

theorem parameters_not_validated:
  "(short_window < 1 \<or> long_window < 1 \<longrightarrow>
      calculate_ema_strategy closes short_window long_window = Inl ValueError) \<and>
   (initial_capital \<noteq> 0 \<longrightarrow>
      (\<exists>r. backtest_ema df initial_capital fee_percent = Inr r))"
  using calculate_rejects [of short_window long_window closes]
    backtest_ema_Inr [of initial_capital df fee_percent]
  by blast

theorem parameters_not_validated_witness:
  "calculate_ema_strategy [10, 20] 0 2 = Inl ValueError \<and>
   calculate_ema_strategy [10, 20] 1 (- 3) = Inl ValueError \<and>
   (\<exists>r. backtest_ema [row_of 1 0, row_of 2 1] 1000 (- 1 / 2) = Inr r)"
  using parameters_not_validated [of 0 2 "[10, 20]" 1000 "[row_of 1 0, row_of 2 1]" "- 1 / 2"]
    parameters_not_validated [of 1 "- 3" "[10, 20]" 1000 "[row_of 1 0, row_of 2 1]" "- 1 / 2"]
  by simp

text \<open>
  C7 as stated fails for the fee rate: with \<open>fee_percent = 1.2\<close> the simulator runs
  to the end and returns a curve and an ROI.
\<close>

theorem fee_rate_not_rejected_counterexample:
  "backtest_ema [row_of 1 0, row_of 2 1] 1000 (12 / 10) =
     Inr \<lparr>position_col = [0, 1], portfolio_value = [Py 1000, Np (Fin (- 200))],
          roi = Np (Fin (- 96))\<rparr>"
  by (simp add: backtest_ema_def liquidate_def roi_of_def init_sim_def init_sim2_def
      step_def step2_def value_of_def np_div_def np_mul_def fsub_def row_of_def Let_def)

section \<open>The state machine\<close>









section \<open>Fee monotonicity\<close>

lemma fl_le_both: "fl_le x y \<longleftrightarrow> (\<exists>a b. x = Fin a \<and> y = Fin b \<and> a \<le> b)"
  by (cases x; cases y) simp_all

lemma no_richerD:
  assumes "no_richer s1 s2"
  obtains c1 c2 h1 h2 where
    "position s2 = position s1" "position s1 = 0 \<or> position s1 = 1"
    "num_fl (capital s1) = Fin c1" "num_fl (capital s2) = Fin c2" "0 \<le> c2" "c2 \<le> c1"
    "num_fl (shares s1) = Fin h1" "num_fl (shares s2) = Fin h2" "0 \<le> h2" "h2 \<le> h1"
  using assms unfolding no_richer_def fl_le_both by auto

lemma scaled_mono:
  fixes x y f1 f2 :: real
  assumes "0 \<le> y" "y \<le> x" "f1 \<le> f2" "f2 \<le> 1"
  shows "0 \<le> y - y * f2" and "y - y * f2 \<le> x - x * f1"
proof -
  have a: "0 \<le> y * (1 - f2)" using assms by simp
  have "y * (1 - f2) \<le> x * (1 - f1)"
    using assms by (intro mult_mono) simp_all
  with a show "0 \<le> y - y * f2" and "y - y * f2 \<le> x - x * f1"
    by (simp_all add: algebra_simps)
qed

lemma no_richer_step:
  assumes r: "no_richer s1 s2" and f: "f1 \<le> f2" "f2 \<le> 1"
    and c: "0 \<le> close b" and nz: "signal b = 1 \<longrightarrow> close b \<noteq> 0"
  shows "no_richer (step f1 b s1) (step f2 b s2)"
proof -
  from r obtain c1 c2 h1 h2 where
    p: "position s2 = position s1" "position s1 = 0 \<or> position s1 = 1"
    and cap: "num_fl (capital s1) = Fin c1" "num_fl (capital s2) = Fin c2" "0 \<le> c2" "c2 \<le> c1"
    and sh: "num_fl (shares s1) = Fin h1" "num_fl (shares s2) = Fin h2" "0 \<le> h2" "h2 \<le> h1"
    by (rule no_richerD)
  consider (buy) "position s1 = 0" "signal b = 1"
    | (sell) "position s1 = 1" "signal b = - 1"
    | (idle) "\<not> (position s1 = 0 \<and> signal b = 1)" "\<not> (position s1 = 1 \<and> signal b = - 1)"
    by blast
  then show ?thesis
  proof cases
    case buy
    with nz c have cl: "0 < close b" by simp
    from scaled_mono [OF cap(3,4) f]
    have "0 \<le> (c2 - c2 * f2) / close b" "(c2 - c2 * f2) / close b \<le> (c1 - c1 * f1) / close b"
      using cl by (simp_all add: divide_right_mono)
    with buy p cap cl show ?thesis
      by (simp add: no_richer_def step_buy)
  next
    case sell
    from sh(3,4) c have "0 \<le> h2 * close b" "h2 * close b \<le> h1 * close b"
      by (simp_all add: mult_right_mono)
    from scaled_mono [OF this f]
    have "0 \<le> h2 * close b - h2 * close b * f2"
      "h2 * close b - h2 * close b * f2 \<le> h1 * close b - h1 * close b * f1" .
    with sell p sh show ?thesis
      by (simp add: no_richer_def step_sell)
  next
    case idle
    with p r show ?thesis by (simp add: step_idle)
  qed
qed

lemma no_richer_init: "0 \<le> ic \<Longrightarrow> no_richer (init_sim ic) (init_sim ic)"
  by (simp add: no_richer_def init_sim_def)

lemma no_richer_runs:
  assumes ic: "0 \<le> ic" and f: "f1 \<le> f2" "f2 \<le> 1"
    and c: "\<forall>b \<in> set df. 0 \<le> close b \<and> (signal b = 1 \<longrightarrow> close b \<noteq> 0)"
    and i: "i < length df"
  shows "no_richer (first_states df ic f1 ! i) (first_states df ic f2 ! i)"
  using i
proof (induction i)
  case 0
  then have "df \<noteq> []" by auto
  with ic show ?case by (simp add: first_states_0 no_richer_init)
next
  case (Suc j)
  then have j: "j < length df" and m: "df ! Suc j \<in> set df" by simp_all
  from c m have cl: "0 \<le> close (df ! Suc j)"
    and nz: "signal (df ! Suc j) = 1 \<longrightarrow> close (df ! Suc j) \<noteq> 0" by blast+
  from no_richer_step [OF Suc.IH [OF j] f cl nz]
  show ?case
    using first_states_step [of "Suc j" df ic f1] first_states_step [of "Suc j" df ic f2] Suc.prems
    by simp
qed

lemma roi_of_Fin:
  assumes "ic \<noteq> 0" and "num_fl cap = Fin c"
  shows "\<exists>q. roi_of cap ic = Inr q \<and> num_fl q = Fin ((c - ic) / ic * 100)"
  using assms by (cases cap) (simp_all add: roi_of_def)

text \<open>The cash the ROI is computed from: the proceeds of the forced sale, or the cash held.\<close>

lemma backtest_ema_roi:
  assumes ne: "df \<noteq> []" and ic: "ic \<noteq> 0"
    and p: "position (last (first_states df ic f)) = 0 \<or> position (last (first_states df ic f)) = 1"
    and c: "num_fl (capital (last (first_states df ic f))) = Fin c"
    and h: "num_fl (shares (last (first_states df ic f))) = Fin h"
  shows "\<exists>r. backtest_ema df ic f = Inr r \<and>
           num_fl (roi r) =
             Fin (((if position (last (first_states df ic f)) = 1
                    then h * close (last df) - h * close (last df) * f else c) - ic) / ic * 100)"
proof (cases "position (last (first_states df ic f)) = 1")
  case True
  from backtest_ema_long [OF ne True] obtain r
    where "backtest_ema df ic f = Inr r"
      and "roi r = Np (fmul (fdiv (fsub
                     (fsub (fmul (num_fl (shares (last (first_states df ic f)))) (Fin (close (last df))))
                           (fmul (fmul (num_fl (shares (last (first_states df ic f)))) (Fin (close (last df))))
                                 (Fin f)))
                     (Fin ic)) (Fin ic)) (Fin 100))"
    by blast
  with True h ic show ?thesis by simp
next
  case False
  obtain ps s1 where fl: "first_loop f (tl df) (init_sim ic) = (ps, s1)"
    by (cases "first_loop f (tl df) (init_sim ic)")
  with first_loop_last [OF ne, of f ic] have s1: "s1 = last (first_states df ic f)" by simp
  from roi_of_Fin [OF ic c] obtain q
    where q: "roi_of (capital (last (first_states df ic f))) ic = Inr q"
      and qv: "num_fl q = Fin ((c - ic) / ic * 100)"
    by blast
  show ?thesis
    using False q qv liquidate_flat [of s1 f df]
    by (simp add: backtest_ema_def fl s1 [symmetric])
qed

text \<open>
  C8. For a fixed frame with close prices that are not negative (and not 0 on a row with
  a Buy signal) and a fixed positive initial capital, the run with the higher fee rate
  (up to 1) returns an ROI that is not above the ROI of the run with the lower fee rate;
  both runs return a finite ROI.
\<close>

theorem fee_monotonicity:
  assumes ic: "0 < initial_capital" and f: "f1 \<le> f2" "f2 \<le> 1"
    and c: "\<forall>b \<in> set df. 0 \<le> close b \<and> (signal b = 1 \<longrightarrow> close b \<noteq> 0)"
  shows "\<exists>r1 r2 x1 x2.
           backtest_ema df initial_capital f1 = Inr r1 \<and>
           backtest_ema df initial_capital f2 = Inr r2 \<and>
           num_fl (roi r1) = Fin x1 \<and> num_fl (roi r2) = Fin x2 \<and> x2 \<le> x1"
proof (cases "df = []")
  case True
  from ic have "backtest_ema [] initial_capital f1 = Inr \<lparr>position_col = [], portfolio_value = [], roi = Py 0\<rparr>"
    and "backtest_ema [] initial_capital f2 = Inr \<lparr>position_col = [], portfolio_value = [], roi = Py 0\<rparr>"
    by (simp_all add: backtest_ema_def liquidate_def roi_of_def init_sim_def)
  with True show ?thesis by simp
next
  case False
  let ?s1 = "last (first_states df initial_capital f1)"
  let ?s2 = "last (first_states df initial_capital f2)"
  from False have n: "length df - 1 < length df" by simp
  from ic have ic0: "0 \<le> initial_capital" and icn: "initial_capital \<noteq> 0" by simp_all
  have l1: "?s1 = first_states df initial_capital f1 ! (length df - 1)"
    by (rule last_nth_length [OF length_first_states False])
  have l2: "?s2 = first_states df initial_capital f2 ! (length df - 1)"
    by (rule last_nth_length [OF length_first_states False])
  from no_richer_runs [OF ic0 f c n] have "no_richer ?s1 ?s2"
    by (simp add: l1 l2)
  then obtain c1 c2 h1 h2 where
    p: "position ?s2 = position ?s1" "position ?s1 = 0 \<or> position ?s1 = 1"
    and cap: "num_fl (capital ?s1) = Fin c1" "num_fl (capital ?s2) = Fin c2" "0 \<le> c2" "c2 \<le> c1"
    and sh: "num_fl (shares ?s1) = Fin h1" "num_fl (shares ?s2) = Fin h2" "0 \<le> h2" "h2 \<le> h1"
    by (rule no_richerD)
  define k1 where "k1 = (if position ?s1 = 1
                         then h1 * close (last df) - h1 * close (last df) * f1 else c1)"
  define k2 where "k2 = (if position ?s1 = 1
                         then h2 * close (last df) - h2 * close (last df) * f2 else c2)"
  from p have p2: "position ?s2 = 0 \<or> position ?s2 = 1" by simp
  from backtest_ema_roi [OF False icn p(2) cap(1) sh(1)] obtain r1
    where r1: "backtest_ema df initial_capital f1 = Inr r1"
      and v1: "num_fl (roi r1) = Fin ((k1 - initial_capital) / initial_capital * 100)"
    unfolding k1_def by blast
  from backtest_ema_roi [OF False icn p2 cap(2) sh(2)] obtain r2
    where r2: "backtest_ema df initial_capital f2 = Inr r2"
      and v2: "num_fl (roi r2) = Fin ((k2 - initial_capital) / initial_capital * 100)"
    unfolding k2_def p(1) by blast
  from False have "last df \<in> set df" by simp
  with c have lc: "0 \<le> close (last df)" by blast
  have k: "k2 \<le> k1"
  proof (cases "position ?s1 = 1")
    case True
    from sh(3,4) lc have "0 \<le> h2 * close (last df)" "h2 * close (last df) \<le> h1 * close (last df)"
      by (simp_all add: mult_right_mono)
    from scaled_mono(2) [OF this f] True show ?thesis
      by (simp add: k1_def k2_def)
  next
    case False
    with cap(4) show ?thesis by (simp add: k1_def k2_def)
  qed
  then have "(k2 - initial_capital) / initial_capital * 100
               \<le> (k1 - initial_capital) / initial_capital * 100"
    using ic by (simp add: divide_right_mono)
  with r1 r2 v1 v2 show ?thesis by blast
qed

theorem fee_monotonicity_witness:
  "backtest_ema [row_of 100 0, row_of 100 1, row_of 110 (- 1)] 1000 0 =
     Inr \<lparr>position_col = [0, 1, 0],
          portfolio_value = [Py 1000, Np (Fin 1000), Np (Fin 1100)], roi = Np (Fin 10)\<rparr> \<and>
   backtest_ema [row_of 100 0, row_of 100 1, row_of 110 (- 1)] 1000 (1 / 100) =
     Inr \<lparr>position_col = [0, 1, 0],
          portfolio_value = [Py 1000, Np (Fin 990), Np (Fin (107811 / 100))],
          roi = Np (Fin (7811 / 1000))\<rparr> \<and>
   (7811 / 1000 :: real) \<le> 10"
proof -
  let ?df = "[row_of 100 0, row_of 100 1, row_of 110 (- 1)]"
  have a: "backtest_ema ?df 1000 0 =
     Inr \<lparr>position_col = [0, 1, 0],
          portfolio_value = [Py 1000, Np (Fin 1000), Np (Fin 1100)], roi = Np (Fin 10)\<rparr>"
    by (simp add: backtest_ema_def liquidate_def roi_of_def init_sim_def init_sim2_def
        step_def step2_def value_of_def np_div_def np_mul_def fsub_def row_of_def Let_def)
  have b: "backtest_ema ?df 1000 (1 / 100) =
     Inr \<lparr>position_col = [0, 1, 0],
          portfolio_value = [Py 1000, Np (Fin 990), Np (Fin (107811 / 100))],
          roi = Np (Fin (7811 / 1000))\<rparr>"
    by (simp add: backtest_ema_def liquidate_def roi_of_def init_sim_def init_sim2_def
        step_def step2_def value_of_def np_div_def np_mul_def fsub_def row_of_def Let_def)
  have h: "(0 :: real) < 1000" "(0 :: real) \<le> 1 / 100" "(1 / 100 :: real) \<le> 1"
    "\<forall>b \<in> set ?df. 0 \<le> close b \<and> (signal b = 1 \<longrightarrow> close b \<noteq> 0)"
    by (simp_all add: row_of_def)
  from fee_monotonicity [OF h] a b show ?thesis by simp
qed

end
